theory Spec2Isabelle
  imports Main
begin

section \<open>Values of the host language\<close>

text \<open>
  The program is the single file \<^verbatim>\<open>src/app.ts\<close>:
  \<^verbatim>\<open>
  dotenv.config()
  const app = express()
  const port = process.env.PORT || 3300
  app.get("/", (req, res) => { res.send("Hello World! 3") })
  app.listen(port, () => { console.log(`Server running on http://localhost:${port}`) })
  \<close>
  The constant \<open>port\<close> has the type \<open>string | number\<close>; a read of a missing
  environment variable gives \<open>undefined\<close>. These three kinds of value are all the
  program handles. Numbers are natural numbers here: the only number the program ever
  builds is the literal 3300.
\<close>

datatype js_value = Undefined | Str string | Num nat

text \<open>Truthiness: \<open>undefined\<close>, the empty string and 0 are falsy.\<close>

fun js_truthy :: "js_value \<Rightarrow> bool" where
  "js_truthy Undefined = False"
| "js_truthy (Str s) = (s \<noteq> [])"
| "js_truthy (Num n) = (n \<noteq> 0)"

text \<open>The operator \<open>a || b\<close>: the left operand when it is truthy, the right one otherwise.\<close>

definition js_or :: "js_value \<Rightarrow> js_value \<Rightarrow> js_value" where
  "js_or a b = (if js_truthy a then a else b)"

text \<open>Decimal notation of a number, as a template literal prints it.\<close>

fun string_of_nat :: "nat \<Rightarrow> string" where
  "string_of_nat n =
     (if n < 10 then [''0123456789'' ! n]
      else string_of_nat (n div 10) @ [''0123456789'' ! (n mod 10)])"

fun js_to_string :: "js_value \<Rightarrow> string" where
  "js_to_string Undefined = ''undefined''"
| "js_to_string (Str s) = s"
| "js_to_string (Num n) = string_of_nat n"

section \<open>The process environment and its configuration file\<close>

text \<open>
  \<open>process.env\<close> is a list of key/value pairs in which the first entry of a key is the
  one that counts. Reading \<open>process.env.K\<close> gives the string, or \<open>undefined\<close> when
  the key is absent.
\<close>

type_synonym env = "(string \<times> string) list"

definition env_get :: "env \<Rightarrow> string \<Rightarrow> js_value" where
  "env_get e k = (case map_of e k of None \<Rightarrow> Undefined | Some s \<Rightarrow> Str s)"

text \<open>
  \<open>dotenv.config()\<close> is called without options. The parsed content of the \<^verbatim>\<open>.env\<close>
  file is a parameter of the model: \<open>None\<close> when the file is missing or unreadable
  (the call then changes nothing and does not fail), \<open>Some kvs\<close> with its key/value pairs
  otherwise. Without the \<open>override\<close> option a key that the process environment already
  holds, even with an empty value, keeps its value; every other key of the file is added.
\<close>

type_synonym dotenv_file = "(string \<times> string) list option"

definition dotenv_populate :: "env \<Rightarrow> (string \<times> string) list \<Rightarrow> env" where
  "dotenv_populate e kvs = e @ filter (\<lambda>kv. map_of e (fst kv) = None) kvs"

definition dotenv_config :: "dotenv_file \<Rightarrow> env \<Rightarrow> env" where
  "dotenv_config file e = (case file of None \<Rightarrow> e | Some kvs \<Rightarrow> dotenv_populate e kvs)"

section \<open>The web framework as the program uses it\<close>

text \<open>
  A request is a message as the runtime's HTTP server hands it to the application: its
  method, the path name of its target (the query string is kept apart), its query
  string, its headers (names in lower case, each name once) and its body. What the
  runtime answers by itself before the application is asked (a malformed request line,
  a method it does not know, an expectation it cannot meet) is not a request here. The
  methods are those of the HTTP standard that the runtime hands on as requests.
\<close>

datatype http_method = GET | HEAD | POST | PUT | DELETE | PATCH | OPTIONS | TRACE

record request =
  req_method :: http_method
  req_path :: string
  req_query :: string
  req_headers :: "(string \<times> string) list"
  req_body :: string

text \<open>
  The response object that a handler receives knows its request (\<open>res.req\<close>) and the
  application's function for entity tags (the setting \<open>etag fn\<close>, a digest of the
  payload; it is a parameter of the model). It carries the status code, 200 on a fresh
  object, the \<open>ETag\<close> header if one is set, and the body that was written when the
  response was ended, if it was. No response of this model carries a \<open>Last-Modified\<close>
  header: nothing in the program sets one.
\<close>

record response =
  res_req :: request
  res_etag_fn :: "string \<Rightarrow> string"
  statusCode :: nat
  res_etag :: "string option"
  sent :: "string option"

definition fresh_response :: "(string \<Rightarrow> string) \<Rightarrow> request \<Rightarrow> response" where
  "fresh_response tag r =
     \<lparr>res_req = r, res_etag_fn = tag, statusCode = 200, res_etag = None, sent = None\<rparr>"

subsection \<open>Conditional requests\<close>

text \<open>
  A header of the request that is absent or empty counts as not given. Lists in header
  values are separated by commas.
\<close>

definition header_given :: "(string \<times> string) list \<Rightarrow> string \<Rightarrow> bool" where
  "header_given hs k = (case map_of hs k of None \<Rightarrow> False | Some v \<Rightarrow> v \<noteq> [])"

definition header_value :: "(string \<times> string) list \<Rightarrow> string \<Rightarrow> string" where
  "header_value hs k = (case map_of hs k of None \<Rightarrow> [] | Some v \<Rightarrow> v)"

fun split_on :: "char \<Rightarrow> string \<Rightarrow> string list" where
  "split_on c [] = [[]]"
| "split_on c (x # xs) =
     (if x = c then [] # split_on c xs
      else (case split_on c xs of [] \<Rightarrow> [[x]] | p # ps \<Rightarrow> (x # p) # ps))"

definition trim :: "(char \<Rightarrow> bool) \<Rightarrow> string \<Rightarrow> string" where
  "trim blank s = rev (dropWhile blank (rev (dropWhile blank s)))"

definition js_space :: "char \<Rightarrow> bool" where
  "js_space c = (c \<in> {CHR 0x20, CHR 0x09, CHR 0x0A, CHR 0x0B, CHR 0x0C, CHR 0x0D, CHR 0xA0})"

text \<open>
  \<open>Cache-Control\<close> asks for a reload when one of its entries, white space aside, is
  \<open>no-cache\<close>. The entries of \<open>If-None-Match\<close> have the blanks around them removed;
  an entry meets the tag of the response when the two are equal up to the prefix of a
  weak tag.
\<close>

definition no_cache :: "string \<Rightarrow> bool" where
  "no_cache v = (''no-cache'' \<in> set (map (trim js_space) (split_on CHR '','' v)))"

definition parse_token_list :: "string \<Rightarrow> string list" where
  "parse_token_list v = map (trim (\<lambda>c. c = CHR 0x20)) (split_on CHR '','' v)"

definition etag_met :: "string \<Rightarrow> string \<Rightarrow> bool" where
  "etag_met etag m = (m = etag \<or> m = ''W/'' @ etag \<or> ''W/'' @ m = etag)"

text \<open>
  The test of the framework whether the client's copy is still fresh, on the headers of
  the request and the \<open>ETag\<close> of the response. A request with \<open>If-Modified-Since\<close> is
  never fresh here, the response having no \<open>Last-Modified\<close>.
\<close>

definition fresh :: "(string \<times> string) list \<Rightarrow> string option \<Rightarrow> bool" where
  "fresh hs etag =
     (if header_given hs ''if-none-match'' \<or> header_given hs ''if-modified-since'' then
        (if header_given hs ''cache-control'' \<and> no_cache (header_value hs ''cache-control'')
         then False
         else if header_given hs ''if-none-match'' \<and> header_value hs ''if-none-match'' \<noteq> ''*'' \<and>
                 (case etag of
                    None \<Rightarrow> True
                  | Some t \<Rightarrow>
                      t = [] \<or> filter (etag_met t) (parse_token_list (header_value hs ''if-none-match'')) = [])
         then False
         else if header_given hs ''if-modified-since'' then False
         else True)
      else False)"

text \<open>\<open>req.fresh\<close>: only GET and HEAD requests, and only while the status is 2xx or 304.\<close>

definition req_fresh :: "response \<Rightarrow> bool" where
  "req_fresh res =
     (if req_method (res_req res) = GET \<or> req_method (res_req res) = HEAD then
        (if (200 \<le> statusCode res \<and> statusCode res < 300) \<or> statusCode res = 304
         then fresh (req_headers (res_req res)) (res_etag res)
         else False)
      else False)"

text \<open>
  \<open>res.send(body)\<close> for a string: the entity tag of the body is set unless the response
  has one; a fresh request turns the status into 304; the statuses 204, 205 and 304 send
  no body; the answer to a HEAD request is ended without a body, any other with the body.
\<close>

definition res_send :: "string \<Rightarrow> response \<Rightarrow> response" where
  "res_send payload res =
     (let res1 = (case res_etag res of
                    None \<Rightarrow>
                      (if res_etag_fn res payload = [] then res
                       else res\<lparr>res_etag := Some (res_etag_fn res payload)\<rparr>)
                  | Some t \<Rightarrow> res);
          res2 = (if req_fresh res1 then res1\<lparr>statusCode := 304\<rparr> else res1);
          chunk = (if statusCode res2 = 204 \<or> statusCode res2 = 304 \<or> statusCode res2 = 205
                   then [] else payload)
      in if req_method (res_req res2) = HEAD then res2\<lparr>sent := Some []\<rparr>
         else res2\<lparr>sent := Some chunk\<rparr>)"

subsection \<open>Handlers and routes\<close>

text \<open>
  What a handler can reach besides its request and its response is the environment of
  the process and its standard output; a handler gives both back, changed or not.
\<close>

record world =
  w_env :: "(string \<times> string) list"
  w_stdout :: "string list"

type_synonym handler = "request \<Rightarrow> response \<Rightarrow> world \<Rightarrow> response \<times> world"

text \<open>
  An application is its route table, in registration order. \<open>express()\<close> creates the
  empty table; \<open>app.get(path, h)\<close> appends a route for the method GET. Paths are
  literal: patterns and the case of letters, which the framework ignores, play no role
  for the one path of this program and are not modelled.
\<close>

record route =
  route_method :: http_method
  route_path :: string
  route_handler :: handler

type_synonym app = "route list"

definition express :: app where
  "express = []"

definition app_get :: "string \<Rightarrow> handler \<Rightarrow> app \<Rightarrow> app" where
  "app_get p h a = a @ [\<lparr>route_method = GET, route_path = p, route_handler = h\<rparr>]"

text \<open>
  Routing as the framework documents it for \<open>app.get\<close>. A route answers the requests of
  its own method, and a GET route also answers HEAD requests. A path matches with or
  without one slash at its end. A request that no route answers gets the framework's
  default reply, status 404; except that an OPTIONS request to a path that has routes is
  answered by the framework itself with status 200 and the list of the methods allowed
  there. A handler that ends without sending leaves the request without a reply. The last
  kind of reply, \<open>Undelivered\<close>, is for a message that never reaches the application;
  it is used further down.
\<close>

definition handles_method :: "route \<Rightarrow> http_method \<Rightarrow> bool" where
  "handles_method rt m =
     (route_method rt = (if m = HEAD \<and> route_method rt \<noteq> HEAD then GET else m))"

definition strip_slash :: "string \<Rightarrow> string" where
  "strip_slash p = (if p \<noteq> [] \<and> last p = CHR ''/'' then butlast p else p)"

definition path_matches :: "string \<Rightarrow> string \<Rightarrow> bool" where
  "path_matches pattern p = (strip_slash p = strip_slash pattern)"

definition route_matches :: "request \<Rightarrow> route \<Rightarrow> bool" where
  "route_matches r rt =
     (path_matches (route_path rt) (req_path r) \<and> handles_method rt (req_method r))"

definition route_options :: "route \<Rightarrow> http_method list" where
  "route_options rt = (if route_method rt = GET then [GET, HEAD] else [route_method rt])"

datatype reply =
    Replied nat string
  | AutoOptions "http_method list"
  | NotFound
  | NoReply
  | Undelivered

fun reply_status :: "reply \<Rightarrow> nat option" where
  "reply_status (Replied status body) = Some status"
| "reply_status (AutoOptions ms) = Some 200"
| "reply_status NotFound = Some 404"
| "reply_status NoReply = None"
| "reply_status Undelivered = None"

definition reply_of :: "response \<Rightarrow> reply" where
  "reply_of res = (case sent res of None \<Rightarrow> NoReply | Some body \<Rightarrow> Replied (statusCode res) body)"

definition dispatch :: "(string \<Rightarrow> string) \<Rightarrow> app \<Rightarrow> request \<Rightarrow> world \<Rightarrow> reply \<times> world" where
  "dispatch tag a r w =
     (case find (route_matches r) a of
        Some rt \<Rightarrow>
          (case route_handler rt r (fresh_response tag r) w of (res, w1) \<Rightarrow> (reply_of res, w1))
      | None \<Rightarrow>
          (let allowed =
                 concat (map route_options
                   (filter (\<lambda>rt. path_matches (route_path rt) (req_path r)) a))
           in if req_method r = OPTIONS \<and> allowed \<noteq> [] then (AutoOptions allowed, w)
              else (NotFound, w)))"

section \<open>The program\<close>

text \<open>
  The state of the process: its environment, the constant \<open>port\<close>, the application,
  the arguments of the calls of \<open>listen\<close>, the sockets that are listening, the lines
  written to standard output, and whether the process died of an uncaught error.
\<close>

record process =
  p_env :: env
  p_port :: js_value
  p_app :: app
  p_bind_requests :: "js_value list"
  p_listening :: "js_value list"
  p_stdout :: "string list"
  p_crashed :: bool

definition start :: "env \<Rightarrow> process" where
  "start e = \<lparr>p_env = e, p_port = Undefined, p_app = [], p_bind_requests = [],
     p_listening = [], p_stdout = [], p_crashed = False\<rparr>"

definition console_log :: "string \<Rightarrow> process \<Rightarrow> process" where
  "console_log line st = st\<lparr>p_stdout := p_stdout st @ [line]\<rparr>"

text \<open>
  \<open>app.listen(port, callback)\<close>: the runtime is asked to bind \<open>port\<close>. Whether it does
  (the value is acceptable, the port is free, the process is allowed to use it) is the
  parameter \<open>os\<close>. On success the socket listens and the callback runs; on failure
  the error is not caught by anything, the process dies and the callback never runs.
\<close>

definition app_listen ::
  "(js_value \<Rightarrow> bool) \<Rightarrow> js_value \<Rightarrow> (process \<Rightarrow> process) \<Rightarrow> process \<Rightarrow> process" where
  "app_listen os p callback st =
     (let st1 = st\<lparr>p_bind_requests := p_bind_requests st @ [p]\<rparr>
      in if os p then callback (st1\<lparr>p_listening := p_listening st1 @ [p]\<rparr>)
         else st1\<lparr>p_crashed := True\<rparr>)"

text \<open>The handler of the one route: \<open>(req, res) => { res.send("Hello World! 3") }\<close>.\<close>

definition hello_handler :: handler where
  "hello_handler req res w = (res_send ''Hello World! 3'' res, w)"

text \<open>The five statements of \<^verbatim>\<open>app.ts\<close>, in their order.\<close>

definition main :: "dotenv_file \<Rightarrow> (js_value \<Rightarrow> bool) \<Rightarrow> env \<Rightarrow> process" where
  "main file os e =
     (let st1 = (start e)\<lparr>p_env := dotenv_config file e\<rparr>;
          st2 = st1\<lparr>p_app := express\<rparr>;
          st3 = st2\<lparr>p_port := js_or (env_get (p_env st2) ''PORT'') (Num 3300)\<rparr>;
          st4 = st3\<lparr>p_app := app_get ''/'' hello_handler (p_app st3)\<rparr>
      in app_listen os (p_port st4)
           (console_log (''Server running on http://localhost:'' @ js_to_string (p_port st4)))
           st4)"

text \<open>
  The running process answers its requests one after the other. Between the socket and
  the application stands the HTTP server of the runtime: a process without a listening
  socket receives nothing, and of the messages that arrive the server hands on only
  those it accepts (it answers a malformed message, an unknown method or an expectation
  it cannot meet by itself). Which messages it hands on is the parameter \<open>delivers\<close>.
  A request that is handed on is dispatched in the application of the process; the
  handler sees the environment and the standard output of the process and leaves them
  to the next request as it returns them.
\<close>

definition handle_request ::
  "(request \<Rightarrow> bool) \<Rightarrow> (string \<Rightarrow> string) \<Rightarrow> process \<Rightarrow> request \<Rightarrow> reply \<times> process" where
  "handle_request delivers tag st r =
     (if p_listening st = [] then (Undelivered, st)
      else if delivers r then
        (case dispatch tag (p_app st) r \<lparr>w_env = p_env st, w_stdout = p_stdout st\<rparr> of
           (rep, w) \<Rightarrow> (rep, st\<lparr>p_env := w_env w, p_stdout := w_stdout w\<rparr>))
      else (Undelivered, st))"

fun serve ::
  "(request \<Rightarrow> bool) \<Rightarrow> (string \<Rightarrow> string) \<Rightarrow> process \<Rightarrow> request list
     \<Rightarrow> reply list \<times> process" where
  "serve delivers tag st [] = ([], st)"
| "serve delivers tag st (r # rs) =
     (case handle_request delivers tag st r of
        (rep, st1) \<Rightarrow>
          (case serve delivers tag st1 rs of (reps, st2) \<Rightarrow> (rep # reps, st2)))"

section \<open>Notions of the specification\<close>

text \<open>
  Two operating systems for the examples: one that grants every bind, one that grants
  none; and an HTTP server that hands on every request.
\<close>

definition os_accepts_all :: "js_value \<Rightarrow> bool" where
  "os_accepts_all p = True"


definition delivers_all :: "request \<Rightarrow> bool" where
  "delivers_all r = True"

text \<open>
  For the examples also: the entity tag that the framework computes for the payload
  \<open>Hello World! 3\<close> (its length, 14, in hexadecimal and the digest of its bytes), and a
  request without headers, query and body.
\<close>

definition etag_of_hello :: "string \<Rightarrow> string" where
  "etag_of_hello payload =
     ''W/'' @ [CHR 0x22] @ ''e-y0xLQ3xA/H9THtdVq2PFBFkwEvE'' @ [CHR 0x22]"

definition plain_request :: "http_method \<Rightarrow> string \<Rightarrow> request" where
  "plain_request m p =
     \<lparr>req_method = m, req_path = p, req_query = [], req_headers = [], req_body = []\<rparr>"

definition no_world :: world where
  "no_world = \<lparr>w_env = [], w_stdout = []\<rparr>"

text \<open>
  The specification speaks of a variable that "parses to a valid integer" and of a
  "valid TCP port number", a positive integer or its textual representation. An integer
  string is a non-empty string of decimal digits; a port number is valid when it lies
  between 1 and 65535. Whether the process is permitted to use a port is decided by the
  operating system, the parameter \<open>os\<close> above.
\<close>

definition decimal_value :: "string \<Rightarrow> nat option" where
  "decimal_value s =
     (if s \<noteq> [] \<and> list_all (\<lambda>c. c \<in> set ''0123456789'') s
      then Some (foldl (\<lambda>a c. 10 * a + (of_char c - 48)) 0 s) else None)"

definition port_number :: "js_value \<Rightarrow> nat option" where
  "port_number v =
     (case v of Undefined \<Rightarrow> None | Str s \<Rightarrow> decimal_value s | Num n \<Rightarrow> Some n)"

definition valid_tcp_port :: "js_value \<Rightarrow> bool" where
  "valid_tcp_port v =
     (case port_number v of None \<Rightarrow> False | Some n \<Rightarrow> 0 < n \<and> n \<le> 65535)"

text \<open>
  The port as the specification's words determine it, to be compared with the port of
  the program: the value of \<open>PORT\<close> if it is present and parses to a valid integer,
  the default 3300 in every other case.
\<close>

definition spec_resolve_port :: "env \<Rightarrow> js_value" where
  "spec_resolve_port e =
     (case map_of e ''PORT'' of
        None \<Rightarrow> Num 3300
      | Some s \<Rightarrow> (case decimal_value s of None \<Rightarrow> Num 3300 | Some n \<Rightarrow> Str s))"

text \<open>The methods and paths for which the application has registered a handler.\<close>

definition registered :: "app \<Rightarrow> (http_method \<times> string) list" where
  "registered a = map (\<lambda>rt. (route_method rt, route_path rt)) a"

section \<open>The state the program ends in\<close>

lemma main_env: "p_env (main file os e) = dotenv_config file e"
  by (simp add: main_def app_listen_def console_log_def start_def Let_def)

lemma main_port:
  "p_port (main file os e) = js_or (env_get (dotenv_config file e) ''PORT'') (Num 3300)"
  by (simp add: main_def app_listen_def console_log_def start_def Let_def)

lemma main_app: "p_app (main file os e) = app_get ''/'' hello_handler express"
  by (simp add: main_def app_listen_def console_log_def start_def Let_def)

lemma main_bind_requests: "p_bind_requests (main file os e) = [p_port (main file os e)]"
  by (simp add: main_def app_listen_def console_log_def start_def Let_def)

lemma main_listening:
  "p_listening (main file os e) =
     (if os (p_port (main file os e)) then [p_port (main file os e)] else [])"
  by (simp add: main_def app_listen_def console_log_def start_def Let_def)


lemma main_crashed: "p_crashed (main file os e) = (\<not> os (p_port (main file os e)))"
  by (simp add: main_def app_listen_def console_log_def start_def Let_def)

subsection \<open>The environment after the configuration file is loaded\<close>

lemma map_of_filter_absent:
  "map_of e k = None \<Longrightarrow>
   map_of (filter (\<lambda>kv. map_of e (fst kv) = None) kvs) k = map_of kvs k"
  by (induction kvs) auto

text \<open>A variable of the process wins over the file; the file fills in what is missing.\<close>

lemma dotenv_config_lookup:
  "map_of (dotenv_config file e) k =
     (case map_of e k of
        Some v \<Rightarrow> Some v
      | None \<Rightarrow> (case file of None \<Rightarrow> None | Some kvs \<Rightarrow> map_of kvs k))"
  by (cases "file"; cases "map_of e k")
     (simp_all add: dotenv_config_def dotenv_populate_def map_add_def map_of_filter_absent)

lemma port_of_lookup:
  "p_port (main file os e) =
     (case map_of (dotenv_config file e) ''PORT'' of
        None \<Rightarrow> Num 3300
      | Some s \<Rightarrow> if s = [] then Num 3300 else Str s)"
  by (simp add: main_port env_get_def js_or_def split: option.split)

lemma valid_default_port: "valid_tcp_port (Num 3300)"
  by (simp add: valid_tcp_port_def port_number_def)

lemma invalid_empty_port: "\<not> valid_tcp_port (Str [])"
  by (simp add: valid_tcp_port_def port_number_def decimal_value_def)

subsection \<open>The route table and its dispatch\<close>

lemma the_app_routes:
  "app_get ''/'' hello_handler express =
     [\<lparr>route_method = GET, route_path = ''/'', route_handler = hello_handler\<rparr>]"
  by (simp add: app_get_def express_def)

lemma the_app_registered:
  "registered (app_get ''/'' hello_handler express) = [(GET, ''/'')]"
  by (simp add: registered_def the_app_routes)

lemma path_matches_root: "path_matches ''/'' p = (p = ''/'' \<or> p = [])"
  by (cases p rule: rev_cases) (auto simp add: path_matches_def strip_slash_def)

lemma the_app_no_match:
  "(req_path r \<noteq> ''/'' \<and> req_path r \<noteq> []) \<or> req_method r \<notin> {GET, HEAD, OPTIONS} \<Longrightarrow>
   filter (route_matches r) (app_get ''/'' hello_handler express) = []"
  by (auto simp add: the_app_routes route_matches_def handles_method_def path_matches_root)

text \<open>A request without \<open>If-None-Match\<close> is never fresh; one that gives \<open>*\<close> and nothing else is.\<close>

lemma fresh_without_inm: "map_of hs ''if-none-match'' = None \<Longrightarrow> fresh hs etag = False"
  by (simp add: fresh_def header_given_def)

lemma fresh_star: "fresh [(''if-none-match'', ''*'')] etag = True"
  by (simp add: fresh_def header_given_def header_value_def)

lemma reply_of_send:
  "reply_of (res_send payload (fresh_response tag r)) =
     (if (req_method r = GET \<or> req_method r = HEAD) \<and>
         fresh (req_headers r) (if tag payload = [] then None else Some (tag payload))
      then Replied 304 []
      else Replied 200 (if req_method r = HEAD then [] else payload))"
  by (simp add: reply_of_def res_send_def fresh_response_def req_fresh_def Let_def)

lemma dispatch_the_app:
  "dispatch tag (app_get ''/'' hello_handler express) r w =
     (if (req_path r = ''/'' \<or> req_path r = []) \<and> (req_method r = GET \<or> req_method r = HEAD)
      then (reply_of (res_send ''Hello World! 3'' (fresh_response tag r)), w)
      else if (req_path r = ''/'' \<or> req_path r = []) \<and> req_method r = OPTIONS
      then (AutoOptions [GET, HEAD], w)
      else (NotFound, w))"
  by (auto simp add: the_app_routes dispatch_def route_matches_def handles_method_def
        route_options_def hello_handler_def path_matches_root)

text \<open>The one handler changes nothing: the process is after a request what it was before.\<close>

lemma handle_request_the_app:
  "p_app st = app_get ''/'' hello_handler express \<Longrightarrow>
   handle_request delivers tag st r =
     (if p_listening st = [] then Undelivered
      else if delivers r
      then fst (dispatch tag (p_app st) r \<lparr>w_env = p_env st, w_stdout = p_stdout st\<rparr>)
      else Undelivered, st)"
  by (simp add: handle_request_def dispatch_the_app split: prod.split)

lemma serve_the_app:
  "p_app st = app_get ''/'' hello_handler express \<Longrightarrow>
   serve delivers tag st rs = (map (\<lambda>r. fst (handle_request delivers tag st r)) rs, st)"
  by (induction rs) (simp_all add: handle_request_the_app)

lemma serve_last:
  "p_app st = app_get ''/'' hello_handler express \<Longrightarrow>
   last (fst (serve delivers tag st (earlier @ [r]))) = fst (handle_request delivers tag st r)"
  by (simp add: serve_the_app)

lemma listening_all: "p_listening (main file os_accepts_all e) \<noteq> []"
  by (simp add: main_listening os_accepts_all_def)


section \<open>The claims\<close>

text \<open>
  C1, as stated: every GET request to \<open>/\<close> is answered with status 200 and the body
  \<open>Hello World! 3\<close>. This fails: the handler answers through \<open>res.send\<close>, which turns
  the reply to a fresh conditional request into status 304 without a body, and a GET
  request to \<open>/\<close> with the header \<open>If-None-Match: *\<close> is such a request.
\<close>

theorem conditional_get_counterexample:
  "fst (handle_request delivers_all etag_of_hello (main None os_accepts_all [])
     \<lparr>req_method = GET, req_path = ''/'', req_query = [],
      req_headers = [(''if-none-match'', ''*'')], req_body = []\<rparr>)
     = Replied 304 [] \<and>
   Replied 304 [] \<noteq> Replied 200 ''Hello World! 3''"
  by (simp add: handle_request_the_app listening_all delivers_all_def main_app
        dispatch_the_app reply_of_send fresh_star)

text \<open>
  C1, amended: for every GET request to the path \<open>/\<close> that reaches the application of
  the listening process and carries no \<open>If-None-Match\<close> header, whatever else it
  carries, whatever the entity tags are and however the process was started, the
  registered handler produces a response with status 200 and the body
  \<open>Hello World! 3\<close>, exactly, and leaves the process as it was.
\<close>

theorem get_root_replies_hello:
  "p_listening (main file os e) \<noteq> [] \<Longrightarrow> delivers r \<Longrightarrow>
   req_method r = GET \<Longrightarrow> req_path r = ''/'' \<Longrightarrow>
   map_of (req_headers r) ''if-none-match'' = None \<Longrightarrow>
   handle_request delivers tag (main file os e) r =
     (Replied 200 ''Hello World! 3'', main file os e)"
  by (simp add: handle_request_the_app main_app dispatch_the_app reply_of_send
        fresh_without_inm)

theorem get_root_replies_hello_witness:
  "handle_request delivers_all etag_of_hello (main None os_accepts_all [])
     \<lparr>req_method = GET, req_path = ''/'', req_query = ''a=1'',
      req_headers = [(''accept'', ''text/html'')], req_body = []\<rparr>
   = (Replied 200 ''Hello World! 3'', main None os_accepts_all [])"
  using get_root_replies_hello
    [of None os_accepts_all "[]" delivers_all
        "\<lparr>req_method = GET, req_path = ''/'', req_query = ''a=1'',
          req_headers = [(''accept'', ''text/html'')], req_body = []\<rparr>"
        etag_of_hello]
  by (simp add: listening_all delivers_all_def)

text \<open>
  C2, as stated: the port is the value of \<open>PORT\<close> when it parses to a valid integer and
  3300 in every other case. This fails: with \<open>PORT=abc\<close>, which is no integer, the
  specification's port is 3300 and the program's port is the string \<open>abc\<close>.
\<close>

theorem port_not_parsed_counterexample:
  "decimal_value ''abc'' = None \<and>
   spec_resolve_port (dotenv_config None [(''PORT'', ''abc'')]) = Num 3300 \<and>
   p_port (main None os_accepts_all [(''PORT'', ''abc'')]) = Str ''abc'' \<and>
   p_port (main None os_accepts_all [(''PORT'', ''abc'')]) \<noteq>
     spec_resolve_port (dotenv_config None [(''PORT'', ''abc'')])"
  by (simp add: port_of_lookup spec_resolve_port_def decimal_value_def dotenv_config_def)

text \<open>
  C2, amended: the port is the value of \<open>PORT\<close>, the string as it is, when the
  variable is present and not empty, whether or not it parses to an integer; it is the
  default 3300 when the variable is absent or empty. The environment is the one the
  process has once the configuration file is loaded.
\<close>

theorem port_is_env_value_or_default:
  "p_port (main file os e) =
     (case map_of (p_env (main file os e)) ''PORT'' of
        None \<Rightarrow> Num 3300
      | Some s \<Rightarrow> if s = [] then Num 3300 else Str s)"
  by (simp add: port_of_lookup main_env)

text \<open>
  C3. When the variable \<open>PORT\<close> is unset in the environment of the running process
  (neither the process nor the configuration file supplies it), the port is 3300, the
  one bind the program asks for is for 3300, and the socket listens on 3300 if the
  operating system grants the bind.
\<close>

theorem unset_port_binds_3300:
  "map_of (p_env (main file os e)) ''PORT'' = None \<Longrightarrow>
   p_port (main file os e) = Num 3300 \<and>
   p_bind_requests (main file os e) = [Num 3300] \<and>
   p_listening (main file os e) = (if os (Num 3300) then [Num 3300] else [])"
  by (simp add: main_bind_requests main_listening port_of_lookup main_env)

theorem unset_port_binds_3300_witness:
  "map_of (p_env (main None os_accepts_all [(''HOME'', ''/root'')])) ''PORT'' = None \<and>
   p_port (main None os_accepts_all [(''HOME'', ''/root'')]) = Num 3300 \<and>
   p_bind_requests (main None os_accepts_all [(''HOME'', ''/root'')]) = [Num 3300] \<and>
   p_listening (main None os_accepts_all [(''HOME'', ''/root'')]) = [Num 3300]"
  using unset_port_binds_3300 [of None os_accepts_all "[(''HOME'', ''/root'')]"]
  by (simp add: main_env dotenv_config_def os_accepts_all_def)

text \<open>
  C4. When \<open>PORT\<close> is set to the string \<open>4000\<close> in the environment the process
  starts with, then whatever the configuration file holds, the one bind the program asks
  for is for that string, which denotes port 4000, and no socket listens on anything
  else.
\<close>

theorem port_4000_binds_4000_only:
  "map_of e ''PORT'' = Some ''4000'' \<Longrightarrow>
   p_bind_requests (main file os e) = [Str ''4000''] \<and>
   p_listening (main file os e) = (if os (Str ''4000'') then [Str ''4000''] else []) \<and>
   port_number (Str ''4000'') = Some 4000"
  by (simp add: main_bind_requests main_listening port_of_lookup dotenv_config_lookup
        port_number_def decimal_value_def)

theorem port_4000_binds_4000_only_witness:
  "map_of [(''PORT'', ''4000'')] ''PORT'' = Some ''4000'' \<and>
   p_bind_requests (main (Some [(''PORT'', ''5000'')]) os_accepts_all [(''PORT'', ''4000'')])
     = [Str ''4000''] \<and>
   p_listening (main (Some [(''PORT'', ''5000'')]) os_accepts_all [(''PORT'', ''4000'')])
     = [Str ''4000''] \<and>
   port_number (Str ''4000'') = Some 4000"
  using port_4000_binds_4000_only
    [of "[(''PORT'', ''4000'')]" "Some [(''PORT'', ''5000'')]" os_accepts_all]
  by (simp add: os_accepts_all_def)

text \<open>
  C5, as stated: every request whose method is not GET gets the default reply with
  status 404. This fails: a HEAD request to \<open>/\<close> is answered through the GET route,
  with status 200.
\<close>

theorem head_root_counterexample:
  "HEAD \<noteq> GET \<and>
   fst (handle_request delivers_all etag_of_hello (main None os_accepts_all [])
     (plain_request HEAD ''/''))
     = Replied 200 [] \<and>
   reply_status (fst (handle_request delivers_all etag_of_hello (main None os_accepts_all [])
     (plain_request HEAD ''/''))) \<noteq> Some 404"
  by (simp add: handle_request_the_app listening_all delivers_all_def main_app
        dispatch_the_app reply_of_send plain_request_def fresh_without_inm)

text \<open>
  C5, amended: for every request that reaches the application of the listening process
  and whose path is neither \<open>/\<close> nor empty, or whose method is none of GET, HEAD and
  OPTIONS, no route of the application matches and the reply is the framework's default,
  status 404; the application registers a handler for GET \<open>/\<close> and for nothing else.
\<close>

theorem other_requests_not_found:
  "p_listening (main file os e) \<noteq> [] \<Longrightarrow> delivers r \<Longrightarrow>
   (req_path r \<noteq> ''/'' \<and> req_path r \<noteq> []) \<or> req_method r \<notin> {GET, HEAD, OPTIONS} \<Longrightarrow>
   filter (route_matches r) (p_app (main file os e)) = [] \<and>
   handle_request delivers tag (main file os e) r = (NotFound, main file os e) \<and>
   reply_status (fst (handle_request delivers tag (main file os e) r)) = Some 404 \<and>
   registered (p_app (main file os e)) = [(GET, ''/'')]"
  by (auto simp add: handle_request_the_app main_app dispatch_the_app the_app_registered
        the_app_no_match)

theorem other_requests_not_found_witness:
  "filter (route_matches (plain_request POST ''/'')) (p_app (main None os_accepts_all [])) = [] \<and>
   fst (handle_request delivers_all etag_of_hello (main None os_accepts_all [])
     (plain_request POST ''/'')) = NotFound \<and>
   fst (handle_request delivers_all etag_of_hello (main None os_accepts_all [])
     (plain_request GET ''/foo'')) = NotFound \<and>
   registered (p_app (main None os_accepts_all [])) = [(GET, ''/'')]"
  using other_requests_not_found
      [of None os_accepts_all "[]" delivers_all "plain_request POST ''/''" etag_of_hello]
    other_requests_not_found
      [of None os_accepts_all "[]" delivers_all "plain_request GET ''/foo''" etag_of_hello]
  by (simp add: plain_request_def listening_all delivers_all_def)

text \<open>
  C6, as stated: for every value of \<open>PORT\<close> the value used to bind is a valid TCP port
  number. This fails: with \<open>PORT=99999\<close> the program asks to bind \<open>99999\<close>, which is
  above 65535.
\<close>

theorem port_unchecked_counterexample:
  "p_bind_requests (main None os_accepts_all [(''PORT'', ''99999'')]) = [Str ''99999''] \<and>
   port_number (Str ''99999'') = Some 99999 \<and>
   \<not> valid_tcp_port (Str ''99999'')"
  by (simp add: main_bind_requests port_of_lookup dotenv_config_def valid_tcp_port_def
        port_number_def decimal_value_def)

text \<open>
  C6, amended: the program checks nothing and binds with the port as it resolved it. The
  value used to bind is a valid TCP port number exactly when \<open>PORT\<close> is unset or
  empty (the value is then 3300) or \<open>PORT\<close> itself is the decimal notation of an
  integer from 1 to 65535.
\<close>

theorem bind_value_valid_iff:
  "p_bind_requests (main file os e) = [p_port (main file os e)] \<and>
   valid_tcp_port (p_port (main file os e)) =
     (case map_of (p_env (main file os e)) ''PORT'' of
        None \<Rightarrow> True
      | Some s \<Rightarrow> s = [] \<or> valid_tcp_port (Str s))"
  by (simp add: main_bind_requests port_of_lookup main_env valid_default_port
        invalid_empty_port split: option.split)

theorem bind_value_valid_iff_witness:
  "p_bind_requests (main None os_accepts_all [(''PORT'', ''8080'')]) = [Str ''8080''] \<and>
   valid_tcp_port (Str ''8080'')"
  using bind_value_valid_iff [of None os_accepts_all "[(''PORT'', ''8080'')]"]
  by (simp add: port_of_lookup main_env dotenv_config_def valid_tcp_port_def
        port_number_def decimal_value_def)






text \<open>
  C9, as stated: any two GET requests to \<open>/\<close> get identical responses, whatever their
  headers. This fails: of two such requests to the same process, the one with the header
  \<open>If-None-Match: *\<close> gets status 304 without a body, the one without it status 200
  with the body.
\<close>

theorem conditional_get_differs_counterexample:
  "fst (serve delivers_all etag_of_hello (main None os_accepts_all [])
     [\<lparr>req_method = GET, req_path = ''/'', req_query = [],
        req_headers = [(''if-none-match'', ''*'')], req_body = []\<rparr>,
      plain_request GET ''/''])
   = [Replied 304 [], Replied 200 ''Hello World! 3'']"
  by (simp add: handle_request_the_app listening_all delivers_all_def main_app
        dispatch_the_app reply_of_send fresh_star fresh_without_inm plain_request_def)

text \<open>
  C9, amended: any two GET requests to \<open>/\<close> that reach the application and carry no
  \<open>If-None-Match\<close> header get replies with the same status and body, whatever their
  other headers, query and body and whatever requests the process answered before each
  of them.
\<close>

theorem get_root_replies_equal:
  "delivers r1 \<Longrightarrow> req_method r1 = GET \<Longrightarrow> req_path r1 = ''/'' \<Longrightarrow>
   map_of (req_headers r1) ''if-none-match'' = None \<Longrightarrow>
   delivers r2 \<Longrightarrow> req_method r2 = GET \<Longrightarrow> req_path r2 = ''/'' \<Longrightarrow>
   map_of (req_headers r2) ''if-none-match'' = None \<Longrightarrow>
   last (fst (serve delivers tag (main file os e) (earlier1 @ [r1]))) =
   last (fst (serve delivers tag (main file os e) (earlier2 @ [r2])))"
  by (simp add: serve_last handle_request_the_app main_app dispatch_the_app reply_of_send
        fresh_without_inm)

theorem get_root_replies_equal_witness:
  "last (fst (serve delivers_all etag_of_hello (main None os_accepts_all [])
     ([\<lparr>req_method = POST, req_path = ''/x'', req_query = [], req_headers = [],
        req_body = ''data''\<rparr>,
       \<lparr>req_method = GET, req_path = ''/'', req_query = [],
        req_headers = [(''if-none-match'', ''*'')], req_body = []\<rparr>] @
      [\<lparr>req_method = GET, req_path = ''/'', req_query = ''a=1'',
        req_headers = [(''cookie'', ''k=v'')], req_body = ''b''\<rparr>]))) =
   last (fst (serve delivers_all etag_of_hello (main None os_accepts_all [])
     ([] @ [\<lparr>req_method = GET, req_path = ''/'', req_query = [], req_headers = [],
        req_body = []\<rparr>])))"
  using get_root_replies_equal
    [of delivers_all
        "\<lparr>req_method = GET, req_path = ''/'', req_query = ''a=1'',
          req_headers = [(''cookie'', ''k=v'')], req_body = ''b''\<rparr>"
        "\<lparr>req_method = GET, req_path = ''/'', req_query = [], req_headers = [],
          req_body = []\<rparr>"
        etag_of_hello None os_accepts_all "[]"
        "[\<lparr>req_method = POST, req_path = ''/x'', req_query = [], req_headers = [],
           req_body = ''data''\<rparr>,
          \<lparr>req_method = GET, req_path = ''/'', req_query = [],
           req_headers = [(''if-none-match'', ''*'')], req_body = []\<rparr>]"
        "[]"]
  by (simp add: delivers_all_def)

text \<open>
  C10. When \<open>PORT\<close> is set in the environment of the running process, the port is the
  default 3300 exactly when the value is the empty string; in particular the empty
  string gives 3300, and no other value that is set does.
\<close>

theorem default_iff_empty:
  "map_of (p_env (main file os e)) ''PORT'' = Some s \<Longrightarrow>
   (p_port (main file os e) = Num 3300) = (s = [])"
  by (simp add: port_of_lookup main_env)

theorem default_iff_empty_witness:
  "map_of (p_env (main (Some [(''PORT'', ''5000'')]) os_accepts_all [(''PORT'', [])])) ''PORT''
     = Some [] \<and>
   p_port (main (Some [(''PORT'', ''5000'')]) os_accepts_all [(''PORT'', [])]) = Num 3300"
  using default_iff_empty
    [of "Some [(''PORT'', ''5000'')]" os_accepts_all "[(''PORT'', [])]" "[]"]
  by (simp add: main_env dotenv_config_def dotenv_populate_def)

end
